theory Spec2Isabelle
  imports Main
begin

unbundle bit_operations_syntax

section \<open>Data model\<close>

text \<open>
  Python integers are unbounded: they are \<open>int\<close>. On \<open>int\<close>, \<open>drop_bit n\<close> is
  Python's \<open>>> n\<close> (floor division by \<open>2 ^ n\<close>) and \<open>AND\<close> is Python's \<open>&\<close> (two's
  complement of unbounded width), for negative operands too. A \<open>bytes\<close> object is a
  list of integers, each in \<open>range(256)\<close>; a \<open>str\<close> is a \<open>string\<close>.
\<close>

text \<open>
  The exceptions a call can end with. \<open>ValueError\<close> carries its message.
  \<open>IndexError\<close> is what \<open>xs[0]\<close> raises on an empty list, \<open>AttributeError\<close> what
  \<open>obj.value\<close> raises on an object without that attribute. \<open>ModbusException\<close> is
  the exception class of the pymodbus library, with the code it would carry; no
  statement of \<open>rouchu.py\<close> raises it.
\<close>

datatype error =
    ValueError string
  | IndexError
  | AttributeError string
  | ModbusException int

text \<open>
  The object that \<open>ClientDecoder().decode\<close> hands back, as \<open>rouchu.py\<close> sees it:
  the attributes it probes with \<open>hasattr\<close> or reads, each present (\<open>Some\<close>) or not.
  \<open>registers\<close> is a list of unsigned 16-bit register values, \<open>bits\<close> a list of
  booleans, \<open>value\<close> the echoed field of a write response (Python's \<open>bool\<close> is a
  subclass of \<open>int\<close>, so an echoed coil state \<open>True\<close>/\<open>False\<close> is \<open>1\<close>/\<open>0\<close>).
  \<open>function_code\<close> and \<open>exception_code\<close> are the fields of an exception response.
  In the library every response object is created with \<open>registers = []\<close> and
  \<open>bits = []\<close>, exception and write responses included; only \<open>None\<close>, which the
  decoder returns for a PDU it cannot decode, has no attribute at all.
\<close>

record message =
  function_code :: "int option"
  registers :: "int list option"
  bits :: "bool list option"
  msg_value :: "int option"
  exception_code :: "int option"

text \<open>
  The pymodbus decoder is a library outside the repository: it is a parameter of
  every operation, a function from the response PDU to the decoded object.
\<close>

type_synonym decoder = "int list \<Rightarrow> message"

text \<open>
  A connected \<open>ModbusTcpClient\<close>, reduced to its socket: \<open>sent\<close> is the log of the
  byte strings written with \<open>socket.send\<close>, oldest first; \<open>peer\<close> gives the bytes the
  device answers to a request.
\<close>

record ModbusTcpClient =
  sent :: "int list list"
  peer :: "int list \<Rightarrow> int list"

section \<open>Constants\<close>

definition TRANSACTION_ID :: int where
  "TRANSACTION_ID = 0x0000"

definition PROTOCOL_ID :: int where
  "PROTOCOL_ID = 0x0000"

definition UNIT_ID :: int where
  "UNIT_ID = 0x01"

definition LENGTH :: int where
  "LENGTH = 0x0006"

section \<open>Frame codec\<close>

text \<open>Python's \<open>bytes([...])\<close>: ValueError unless every element is in \<open>range(256)\<close>.\<close>

definition bytes_of :: "int list \<Rightarrow> error + int list" where
  "bytes_of xs =
     (if list_all (\<lambda>x. 0 \<le> x \<and> x < 256) xs then Inr xs
      else Inl (ValueError ''bytes must be in range(0, 256)''))"

definition unsigned_to_signed_16bit :: "int \<Rightarrow> error + int" where
  "unsigned_to_signed_16bit v =
     (if v > 0xFFFF then Inl (ValueError ''Value exceeds 16-bit unsigned integer range'')
      else Inr (if v > 0x7FFF then v - 0x10000 else v))"

definition build_mbap_header :: "int \<Rightarrow> int \<Rightarrow> int \<Rightarrow> int \<Rightarrow> error + int list" where
  "build_mbap_header transaction_id protocol_id length_field unit_id =
     bytes_of
       [drop_bit 8 transaction_id AND 0xFF, transaction_id AND 0xFF,
        drop_bit 8 protocol_id AND 0xFF, protocol_id AND 0xFF,
        drop_bit 8 length_field AND 0xFF, length_field AND 0xFF,
        unit_id]"

text \<open>
  \<open>send_request\<close>: one \<open>send\<close>, one \<open>recv(1024)\<close>, the first 7 bytes of the
  response dropped (\<open>response[7:]\<close>, empty when the response is shorter), the rest
  decoded. Returns the decoded object and the client with the request logged.
\<close>

definition send_request :: "decoder \<Rightarrow> ModbusTcpClient \<Rightarrow> int list \<Rightarrow> message \<times> ModbusTcpClient" where
  "send_request decode client request =
     (let client' = client\<lparr>sent := sent client @ [request]\<rparr>;
          response = take 1024 (peer client request);
          response_pdu = drop 7 response;
          response_message = decode response_pdu
      in (response_message, client'))"

section \<open>Pressure protocol\<close>

definition get_pressure :: "decoder \<Rightarrow> ModbusTcpClient \<Rightarrow> (error + int) \<times> ModbusTcpClient" where
  "get_pressure decode client =
     (let function_code = 0x03;
          starting_address = 0x0302;
          quantity_of_registers = 0x0002
      in case build_mbap_header TRANSACTION_ID PROTOCOL_ID LENGTH UNIT_ID of
           Inl e \<Rightarrow> (Inl e, client)
         | Inr request_mbap \<Rightarrow>
             (case bytes_of
                     [function_code,
                      drop_bit 8 starting_address AND 0xFF, starting_address AND 0xFF,
                      drop_bit 8 quantity_of_registers AND 0xFF, quantity_of_registers AND 0xFF] of
                Inl e \<Rightarrow> (Inl e, client)
              | Inr request_pdu \<Rightarrow>
                  (let request = request_mbap @ request_pdu;
                       (response_message, client') = send_request decode client request
                   in case registers response_message of
                        Some regs \<Rightarrow>
                          (case regs of
                             [] \<Rightarrow> (Inl IndexError, client')
                           | pressure # _ \<Rightarrow> (unsigned_to_signed_16bit pressure, client'))
                      | None \<Rightarrow> (Inl (ValueError ''Invalid response message''), client'))))"

definition set_pressure ::
    "decoder \<Rightarrow> ModbusTcpClient \<Rightarrow> int \<Rightarrow> string \<Rightarrow> (error + int) \<times> ModbusTcpClient" where
  "set_pressure decode client pressure_value0 style =
     (let function_code = 0x06;
          address = (if style = ''Positive'' then 0x0306 else 0x0307);
          pressure_value =
            (if style = ''Positive'' then max 10 (min 300 pressure_value0)
             else max (- 80) (min (- 10) pressure_value0));
          pressure_high_byte = drop_bit 8 pressure_value AND 0xFF;
          pressure_low_byte = pressure_value AND 0xFF
      in case build_mbap_header TRANSACTION_ID PROTOCOL_ID LENGTH UNIT_ID of
           Inl e \<Rightarrow> (Inl e, client)
         | Inr request_mbap \<Rightarrow>
             (case bytes_of
                     [function_code,
                      drop_bit 8 address AND 0xFF, address AND 0xFF,
                      pressure_high_byte, pressure_low_byte] of
                Inl e \<Rightarrow> (Inl e, client)
              | Inr request_pdu \<Rightarrow>
                  (let request = request_mbap @ request_pdu;
                       (response_message, client') = send_request decode client request
                   in case msg_value response_message of
                        Some v \<Rightarrow> (unsigned_to_signed_16bit v, client')
                      | None \<Rightarrow> (Inl (AttributeError ''value''), client'))))"

definition is_pressure_launched ::
    "decoder \<Rightarrow> ModbusTcpClient \<Rightarrow> string \<Rightarrow> (error + bool) \<times> ModbusTcpClient" where
  "is_pressure_launched decode client style =
     (let function_code = 0x02;
          address = (if style = ''Positive'' then 0x0200 else 0x0201);
          quantity_of_inputs = 0x0001
      in case build_mbap_header TRANSACTION_ID PROTOCOL_ID LENGTH UNIT_ID of
           Inl e \<Rightarrow> (Inl e, client)
         | Inr request_mbap \<Rightarrow>
             (case bytes_of
                     [function_code,
                      drop_bit 8 address AND 0xFF, address AND 0xFF,
                      drop_bit 8 quantity_of_inputs AND 0xFF, quantity_of_inputs AND 0xFF] of
                Inl e \<Rightarrow> (Inl e, client)
              | Inr request_pdu \<Rightarrow>
                  (let request = request_mbap @ request_pdu;
                       (response_message, client') = send_request decode client request
                   in case bits response_message of
                        Some bs \<Rightarrow>
                          (case bs of
                             [] \<Rightarrow> (Inl IndexError, client')
                           | b # _ \<Rightarrow> (Inr b, client'))
                      | None \<Rightarrow> (Inl (ValueError ''Invalid response message''), client'))))"

definition launch_pressure ::
    "decoder \<Rightarrow> ModbusTcpClient \<Rightarrow> string \<Rightarrow> string \<Rightarrow> (error + int) \<times> ModbusTcpClient" where
  "launch_pressure decode client state style =
     (let function_code = 0x05;
          address = (if style = ''Positive'' then 0x0100 else 0x0101);
          val = (if state = ''ON'' then 0xFF00 else 0x0000)
      in case build_mbap_header TRANSACTION_ID PROTOCOL_ID LENGTH UNIT_ID of
           Inl e \<Rightarrow> (Inl e, client)
         | Inr request_mbap \<Rightarrow>
             (case bytes_of
                     [function_code,
                      drop_bit 8 address AND 0xFF, address AND 0xFF,
                      drop_bit 8 val AND 0xFF, val AND 0xFF] of
                Inl e \<Rightarrow> (Inl e, client)
              | Inr request_pdu \<Rightarrow>
                  (let request = request_mbap @ request_pdu;
                       (response_message, client') = send_request decode client request
                   in case msg_value response_message of
                        Some v \<Rightarrow> (Inr v, client')
                      | None \<Rightarrow> (Inl (AttributeError ''value''), client'))))"

section \<open>Reading a request back\<close>

text \<open>
  The 16-bit big-endian field that ends every request (bytes 10 and 11 of the
  frame, the last two of the PDU): the register or input count of a read, the value
  of a write. It is what the device receives as the transmitted value.
\<close>

definition request_field :: "int list \<Rightarrow> int" where
  "request_field request = request ! 10 * 256 + request ! 11"

section \<open>The library's response objects, concrete devices and a concrete decoder\<close>

text \<open>
  \<open>none_message\<close> is \<open>None\<close>: no attribute. \<open>response_object\<close> is a response
  object as the library creates it, before its \<open>decode\<close> fills it: both lists
  empty, no \<open>value\<close>. \<open>exception_response\<close> is the object the library's decoder
  builds for a PDU whose function code has the exception bit set: the function code,
  the exception code read from the first payload byte, and the two empty lists.
\<close>

definition none_message :: message where
  "none_message =
     \<lparr>function_code = None, registers = None, bits = None, msg_value = None,
      exception_code = None\<rparr>"

definition response_object :: "int \<Rightarrow> message" where
  "response_object fc =
     \<lparr>function_code = Some fc, registers = Some [], bits = Some [], msg_value = None,
      exception_code = None\<rparr>"

definition exception_response :: "int \<Rightarrow> int \<Rightarrow> message" where
  "exception_response fc e =
     \<lparr>function_code = Some fc, registers = Some [], bits = Some [], msg_value = None,
      exception_code = Some e\<rparr>"

fun be16_words :: "int list \<Rightarrow> int list" where
  "be16_words (hi # lo # rest) = (hi * 256 + lo) # be16_words rest"
| "be16_words _ = []"

definition unpack_bits :: "int \<Rightarrow> bool list" where
  "unpack_bits b = map (\<lambda>i. odd (b div 2 ^ i)) [0, 1, 2, 3, 4, 5, 6, 7 :: nat]"

text \<open>
  \<open>sample_decoder\<close> is the input for the examples below. It follows the library's
  \<open>ClientDecoder.decode\<close> on the response PDUs of function codes 1 to 6 and on
  exception responses:
  \<^item> an empty PDU, or a payload the response class cannot unpack, gives \<open>None\<close>;
  \<^item> a function code above \<open>0x80\<close> gives the exception response, with the first
    payload byte as exception code;
  \<^item> a register read (3, 4) checks the byte count (at least 2, at most 252, even, and
    equal to the number of bytes that follow) and unpacks big-endian 16-bit words;
  \<^item> a bit read (1, 2) unpacks every data byte into 8 booleans, least significant
    bit first;
  \<^item> a register write (6) and a coil write (5) take exactly four payload bytes,
    address and value; the coil value is \<open>True\<close> exactly for \<open>0xFF00\<close>.
  The library knows further function codes; they are not used below, and
  \<open>sample_decoder\<close> answers them with \<open>None\<close>.
\<close>

fun sample_decoder :: decoder where
  "sample_decoder [] = none_message"
| "sample_decoder (fc # payload) =
     (if fc > 0x80 then
        (case payload of
           [] \<Rightarrow> none_message
         | e # _ \<Rightarrow> exception_response fc e)
      else if fc = 0x03 \<or> fc = 0x04 then
        (case payload of
           [] \<Rightarrow> none_message
         | byte_count # data \<Rightarrow>
             if byte_count < 2 \<or> byte_count > 252 \<or> byte_count mod 2 = 1 \<or>
                byte_count \<noteq> int (length data)
             then none_message
             else (response_object fc)\<lparr>registers := Some (be16_words data)\<rparr>)
      else if fc = 0x01 \<or> fc = 0x02 then
        (case payload of
           [] \<Rightarrow> none_message
         | byte_count # data \<Rightarrow>
             (response_object fc)\<lparr>bits := Some (concat (map unpack_bits data))\<rparr>)
      else if fc = 0x06 then
        (case payload of
           [ah, al, vh, vl] \<Rightarrow> (response_object fc)\<lparr>msg_value := Some (vh * 256 + vl)\<rparr>
         | _ \<Rightarrow> none_message)
      else if fc = 0x05 then
        (case payload of
           [ah, al, vh, vl] \<Rightarrow>
             (response_object fc)\<lparr>msg_value := Some (if vh * 256 + vl = 0xFF00 then 1 else 0)\<rparr>
         | _ \<Rightarrow> none_message)
      else none_message)"

text \<open>A device that answers a write with the request frame itself.\<close>

definition echo_device :: ModbusTcpClient where
  "echo_device = \<lparr>sent = [], peer = (\<lambda>request. request)\<rparr>"

text \<open>
  A device that answers every request with an exception response: the request's
  function code with the exception bit set, and exception code 2 (illegal data
  address).
\<close>

definition exception_device :: ModbusTcpClient where
  "exception_device =
     \<lparr>sent = [], peer = (\<lambda>request. [0, 0, 0, 0, 0, 3, 1, request ! 7 + 0x80, 0x02])\<rparr>"

text \<open>
  A device that answers with a read-holding-registers response for two registers,
  the first with the bytes \<open>hi\<close>, \<open>lo\<close>, the second zero.
\<close>

definition register_device :: "int \<Rightarrow> int \<Rightarrow> ModbusTcpClient" where
  "register_device hi lo =
     \<lparr>sent = [], peer = (\<lambda>request. [0, 0, 0, 0, 0, 7, 1, 0x03, 0x04, hi, lo, 0x00, 0x00])\<rparr>"

section \<open>Auxiliary facts\<close>

lemma and_0xFF_mod: "(x::int) AND 0xFF = x mod 256"
proof -
  have "(0xFF::int) = mask 8"
    by (simp add: mask_eq_exp_minus_1)
  then have "x AND 0xFF = take_bit 8 x"
    by (simp only: take_bit_eq_mask)
  then show ?thesis
    by (simp add: take_bit_eq_mod)
qed

lemma byte_range: "0 \<le> (x::int) AND 0xFF \<and> (x::int) AND 0xFF < 256"
  by (simp add: and_0xFF_mod)

lemma mbap_header_const:
  "build_mbap_header TRANSACTION_ID PROTOCOL_ID LENGTH UNIT_ID = Inr [0, 0, 0, 0, 0, 6, 1]"
  by (simp add: build_mbap_header_def TRANSACTION_ID_def PROTOCOL_ID_def LENGTH_def UNIT_ID_def
      bytes_of_def)

lemma bytes_of_pdu:
  assumes "0 \<le> fc" and "fc < 256"
  shows "bytes_of [fc, drop_bit 8 a AND 0xFF, a AND 0xFF, drop_bit 8 v AND 0xFF, v AND 0xFF] =
         Inr [fc, drop_bit 8 a AND 0xFF, a AND 0xFF, drop_bit 8 v AND 0xFF, v AND 0xFF]"
  using assms byte_range [of a] byte_range [of v] byte_range [of "drop_bit 8 a"]
    byte_range [of "drop_bit 8 v"]
  unfolding bytes_of_def by simp

lemma reply_message: "fst (send_request d c request) = d (drop 7 (take 1024 (peer c request)))"
  by (simp add: send_request_def Let_def)

text \<open>Each operation, with its request written out.\<close>

lemma get_pressure_unfold:
  "get_pressure d c =
     (case registers (fst (send_request d c [0, 0, 0, 0, 0, 6, 1, 3, 3, 2, 0, 2])) of
        Some regs \<Rightarrow>
          (case regs of [] \<Rightarrow> Inl IndexError | pressure # _ \<Rightarrow> unsigned_to_signed_16bit pressure)
      | None \<Rightarrow> Inl (ValueError ''Invalid response message''),
      c\<lparr>sent := sent c @ [[0, 0, 0, 0, 0, 6, 1, 3, 3, 2, 0, 2]]\<rparr>)"
  by (simp add: get_pressure_def mbap_header_const bytes_of_def send_request_def Let_def
      split: option.splits list.splits)

lemma set_pressure_unfold:
  "set_pressure d c p s =
     (let v = (if s = ''Positive'' then max 10 (min 300 p) else max (- 80) (min (- 10) p));
          req = [0, 0, 0, 0, 0, 6, 1, 6, 3, (if s = ''Positive'' then 6 else 7),
                 drop_bit 8 v AND 0xFF, v AND 0xFF]
      in (case msg_value (fst (send_request d c req)) of
            Some x \<Rightarrow> unsigned_to_signed_16bit x
          | None \<Rightarrow> Inl (AttributeError ''value''),
          c\<lparr>sent := sent c @ [req]\<rparr>))"
proof -
  define v where "v = (if s = ''Positive'' then max 10 (min 300 p) else max (- 80) (min (- 10) p))"
  have b: "bytes_of [6, drop_bit 8 a AND 0xFF, a AND 0xFF, drop_bit 8 v AND 0xFF, v AND 0xFF] =
      Inr [6, drop_bit 8 a AND 0xFF, a AND 0xFF, drop_bit 8 v AND 0xFF, v AND 0xFF]" for a
    by (rule bytes_of_pdu) simp_all
  have a: "drop_bit 8 (0x0306::int) AND 0xFF = 3" "(0x0306::int) AND 0xFF = 6"
    "drop_bit 8 (0x0307::int) AND 0xFF = 3" "(0x0307::int) AND 0xFF = 7"
    by simp_all
  show ?thesis
    unfolding set_pressure_def Let_def mbap_header_const v_def [symmetric] sum.case b
      send_request_def prod.case
    by (simp only: a append_Cons append_Nil split: if_split option.split) simp
qed

lemma is_pressure_launched_unfold:
  "is_pressure_launched d c s =
     (let req = [0, 0, 0, 0, 0, 6, 1, 2, 2, (if s = ''Positive'' then 0 else 1), 0, 1]
      in (case bits (fst (send_request d c req)) of
            Some bs \<Rightarrow> (case bs of [] \<Rightarrow> Inl IndexError | b # _ \<Rightarrow> Inr b)
          | None \<Rightarrow> Inl (ValueError ''Invalid response message''),
          c\<lparr>sent := sent c @ [req]\<rparr>))"
  by (simp add: is_pressure_launched_def mbap_header_const bytes_of_def send_request_def Let_def
      split: option.splits list.splits)

lemma launch_pressure_unfold:
  "launch_pressure d c st s =
     (let req = [0, 0, 0, 0, 0, 6, 1, 5, 1, (if s = ''Positive'' then 0 else 1),
                 (if st = ''ON'' then 0xFF else 0), 0]
      in (case msg_value (fst (send_request d c req)) of
            Some v \<Rightarrow> Inr v
          | None \<Rightarrow> Inl (AttributeError ''value''),
          c\<lparr>sent := sent c @ [req]\<rparr>))"
  by (simp add: launch_pressure_def mbap_header_const bytes_of_def send_request_def Let_def
      split: option.splits list.splits)

text \<open>The two bytes of a clamped value, read back as an unsigned 16-bit word.\<close>

lemma positive_field:
  "10 \<le> v \<Longrightarrow> v \<le> 300 \<Longrightarrow> (drop_bit 8 v AND 0xFF) * 256 + (v AND 0xFF) = (v::int)"
  by (simp add: and_0xFF_mod drop_bit_eq_div)

lemma negative_field:
  assumes "- 80 \<le> v" and "v \<le> - 10"
  shows "(drop_bit 8 v AND 0xFF) * 256 + (v AND 0xFF) = (v::int) + 0x10000"
proof -
  have v: "v = 256 * (- 1) + (v + 256)"
    by simp
  have d: "v div 256 = - 1"
    using assms by (intro int_div_pos_eq [OF v]) simp_all
  have m: "v mod 256 = v + 256"
    using assms by (intro int_mod_pos_eq [OF v]) simp_all
  show ?thesis
    by (simp add: and_0xFF_mod drop_bit_eq_div d m)
qed

section \<open>Signed conversion\<close>

text \<open>
  C2. For every \<open>v\<close> in \<open>[0, 0x7FFF]\<close>, \<open>unsigned_to_signed_16bit v\<close> is \<open>v\<close>; for
  every \<open>v\<close> in \<open>[0x8000, 0xFFFF]\<close> it is \<open>v - 0x10000\<close>. On the unsigned 16-bit
  domain the function always returns a value and never raises.
\<close>

theorem unsigned_to_signed_16bit_u16:
  "(0 \<le> v \<and> v \<le> 0x7FFF \<longrightarrow> unsigned_to_signed_16bit v = Inr v) \<and>
   (0x8000 \<le> v \<and> v \<le> 0xFFFF \<longrightarrow> unsigned_to_signed_16bit v = Inr (v - 0x10000)) \<and>
   (0 \<le> v \<and> v \<le> 0xFFFF \<longrightarrow> (\<exists>r. unsigned_to_signed_16bit v = Inr r))"
  by (simp add: unsigned_to_signed_16bit_def)

theorem unsigned_to_signed_16bit_u16_witness:
  "unsigned_to_signed_16bit 0x7FFF = Inr 0x7FFF \<and>
   unsigned_to_signed_16bit 0x8000 = Inr (- 0x8000) \<and>
   unsigned_to_signed_16bit 0xFFFF = Inr (- 1)"
  using unsigned_to_signed_16bit_u16 [of "0x7FFF"] unsigned_to_signed_16bit_u16 [of "0x8000"]
    unsigned_to_signed_16bit_u16 [of "0xFFFF"]
  by simp

text \<open>
  C10. \<open>unsigned_to_signed_16bit\<close> raises ValueError exactly when its input is
  greater than \<open>0xFFFF\<close>; every input up to \<open>0x7FFF\<close>, every negative integer
  included (there is no lower-bound check), is returned unchanged; every input in
  \<open>[0x8000, 0xFFFF]\<close> gives the input minus \<open>0x10000\<close>.
\<close>

theorem unsigned_to_signed_16bit_cases:
  "((\<exists>e. unsigned_to_signed_16bit v = Inl e) \<longleftrightarrow> v > 0xFFFF) \<and>
   (v > 0xFFFF \<longrightarrow>
      unsigned_to_signed_16bit v = Inl (ValueError ''Value exceeds 16-bit unsigned integer range'')) \<and>
   (v \<le> 0x7FFF \<longrightarrow> unsigned_to_signed_16bit v = Inr v) \<and>
   (0x8000 \<le> v \<and> v \<le> 0xFFFF \<longrightarrow> unsigned_to_signed_16bit v = Inr (v - 0x10000))"
  by (simp add: unsigned_to_signed_16bit_def)

theorem unsigned_to_signed_16bit_cases_witness:
  "unsigned_to_signed_16bit 0x10000 = Inl (ValueError ''Value exceeds 16-bit unsigned integer range'') \<and>
   unsigned_to_signed_16bit (- 70000) = Inr (- 70000) \<and>
   unsigned_to_signed_16bit 0xFFCE = Inr (- 50)"
  using unsigned_to_signed_16bit_cases [of "0x10000"] unsigned_to_signed_16bit_cases [of "- 70000"]
    unsigned_to_signed_16bit_cases [of "0xFFCE"]
  by simp

section \<open>Clamping\<close>

text \<open>
  C1. For every requested pressure, \<open>set_pressure\<close> transmits the request clamped
  into \<open>[10, 300]\<close> with style \<open>Positive\<close> and into \<open>[-80, -10]\<close> with style
  \<open>Negative\<close>: the value field of the one request it sends is the clamped value
  (as a 16-bit two's complement word), the call behaves exactly as the call with the
  clamped value, and its result is decided by the response alone, so that an
  out-of-range request raises nothing. The examples of the claim (500 gives 300, -50
  gives 10; 5 gives -10, -200 gives -80) are evaluated in the theorem that follows.
\<close>

theorem set_pressure_clamps:
  "(let v = max 10 (min 300 p);
        req = [0, 0, 0, 0, 0, 6, 1, 0x06, 0x03, 0x06, drop_bit 8 v AND 0xFF, v AND 0xFF]
    in 10 \<le> v \<and> v \<le> 300 \<and>
       sent (snd (set_pressure d c p ''Positive'')) = sent c @ [req] \<and>
       unsigned_to_signed_16bit (request_field req) = Inr v \<and>
       set_pressure d c p ''Positive'' = set_pressure d c v ''Positive'' \<and>
       fst (set_pressure d c p ''Positive'') =
         (case msg_value (fst (send_request d c req)) of
            Some x \<Rightarrow> unsigned_to_signed_16bit x
          | None \<Rightarrow> Inl (AttributeError ''value''))) \<and>
   (let v = max (- 80) (min (- 10) p);
        req = [0, 0, 0, 0, 0, 6, 1, 0x06, 0x03, 0x07, drop_bit 8 v AND 0xFF, v AND 0xFF]
    in - 80 \<le> v \<and> v \<le> - 10 \<and>
       sent (snd (set_pressure d c p ''Negative'')) = sent c @ [req] \<and>
       unsigned_to_signed_16bit (request_field req) = Inr v \<and>
       set_pressure d c p ''Negative'' = set_pressure d c v ''Negative'' \<and>
       fst (set_pressure d c p ''Negative'') =
         (case msg_value (fst (send_request d c req)) of
            Some x \<Rightarrow> unsigned_to_signed_16bit x
          | None \<Rightarrow> Inl (AttributeError ''value'')))"
proof -
  define vp where "vp = max 10 (min 300 p)"
  define vn where "vn = max (- 80) (min (- 10) p)"
  have rp: "10 \<le> vp" "vp \<le> 300" and rn: "- 80 \<le> vn" "vn \<le> - 10"
    by (simp_all add: vp_def vn_def)
  have ip: "max 10 (min 300 vp) = vp" and idn: "max (- 80) (min (- 10) vn) = vn"
    using rp rn by simp_all
  have fp: "unsigned_to_signed_16bit ((drop_bit 8 vp AND 0xFF) * 256 + (vp AND 0xFF)) = Inr vp"
    using rp by (simp add: positive_field unsigned_to_signed_16bit_def)
  have fn: "unsigned_to_signed_16bit ((drop_bit 8 vn AND 0xFF) * 256 + (vn AND 0xFF)) = Inr vn"
    using rn by (simp add: negative_field unsigned_to_signed_16bit_def)
  have P: "10 \<le> vp \<and> vp \<le> 300 \<and>
       sent (snd (set_pressure d c p ''Positive'')) =
         sent c @ [[0, 0, 0, 0, 0, 6, 1, 0x06, 0x03, 0x06, drop_bit 8 vp AND 0xFF, vp AND 0xFF]] \<and>
       unsigned_to_signed_16bit
         (request_field [0, 0, 0, 0, 0, 6, 1, 0x06, 0x03, 0x06, drop_bit 8 vp AND 0xFF, vp AND 0xFF]) = Inr vp \<and>
       set_pressure d c p ''Positive'' = set_pressure d c vp ''Positive'' \<and>
       fst (set_pressure d c p ''Positive'') =
         (case msg_value (fst (send_request d c
                 [0, 0, 0, 0, 0, 6, 1, 0x06, 0x03, 0x06, drop_bit 8 vp AND 0xFF, vp AND 0xFF])) of
            Some x \<Rightarrow> unsigned_to_signed_16bit x
          | None \<Rightarrow> Inl (AttributeError ''value''))"
    using rp fp by (simp add: set_pressure_unfold [of d c p] set_pressure_unfold [of d c vp] ip
        request_field_def Let_def vp_def [symmetric])
  have N: "- 80 \<le> vn \<and> vn \<le> - 10 \<and>
       sent (snd (set_pressure d c p ''Negative'')) =
         sent c @ [[0, 0, 0, 0, 0, 6, 1, 0x06, 0x03, 0x07, drop_bit 8 vn AND 0xFF, vn AND 0xFF]] \<and>
       unsigned_to_signed_16bit
         (request_field [0, 0, 0, 0, 0, 6, 1, 0x06, 0x03, 0x07, drop_bit 8 vn AND 0xFF, vn AND 0xFF]) = Inr vn \<and>
       set_pressure d c p ''Negative'' = set_pressure d c vn ''Negative'' \<and>
       fst (set_pressure d c p ''Negative'') =
         (case msg_value (fst (send_request d c
                 [0, 0, 0, 0, 0, 6, 1, 0x06, 0x03, 0x07, drop_bit 8 vn AND 0xFF, vn AND 0xFF])) of
            Some x \<Rightarrow> unsigned_to_signed_16bit x
          | None \<Rightarrow> Inl (AttributeError ''value''))"
    using rn fn by (simp add: set_pressure_unfold [of d c p] set_pressure_unfold [of d c vn] idn
        request_field_def Let_def vn_def [symmetric])
  from P N show ?thesis
    unfolding Let_def vp_def vn_def by (rule conjI)
qed

theorem set_pressure_clamps_witness:
  "sent (snd (set_pressure sample_decoder echo_device 500 ''Positive'')) = [[0, 0, 0, 0, 0, 6, 1, 6, 3, 6, 0x01, 0x2C]] \<and>
   request_field [0, 0, 0, 0, 0, 6, 1, 6, 3, 6, 0x01, 0x2C] = 300 \<and>
   sent (snd (set_pressure sample_decoder echo_device (- 50) ''Positive'')) = [[0, 0, 0, 0, 0, 6, 1, 6, 3, 6, 0x00, 0x0A]] \<and>
   request_field [0, 0, 0, 0, 0, 6, 1, 6, 3, 6, 0x00, 0x0A] = 10 \<and>
   sent (snd (set_pressure sample_decoder echo_device 5 ''Negative'')) = [[0, 0, 0, 0, 0, 6, 1, 6, 3, 7, 0xFF, 0xF6]] \<and>
   unsigned_to_signed_16bit (request_field [0, 0, 0, 0, 0, 6, 1, 6, 3, 7, 0xFF, 0xF6]) = Inr (- 10) \<and>
   sent (snd (set_pressure sample_decoder echo_device (- 200) ''Negative'')) = [[0, 0, 0, 0, 0, 6, 1, 6, 3, 7, 0xFF, 0xB0]] \<and>
   unsigned_to_signed_16bit (request_field [0, 0, 0, 0, 0, 6, 1, 6, 3, 7, 0xFF, 0xB0]) = Inr (- 80)"
proof -
  have a: "sent (snd (set_pressure sample_decoder echo_device 500 ''Positive'')) =
      [[0, 0, 0, 0, 0, 6, 1, 6, 3, 6, 0x01, 0x2C]]"
    using set_pressure_clamps [of 500 sample_decoder echo_device, unfolded Let_def, THEN conjunct1,
        THEN conjunct2, THEN conjunct2, THEN conjunct1]
    by (simp add: echo_device_def)
  have b: "sent (snd (set_pressure sample_decoder echo_device (- 50) ''Positive'')) =
      [[0, 0, 0, 0, 0, 6, 1, 6, 3, 6, 0x00, 0x0A]]"
    using set_pressure_clamps [of "- 50" sample_decoder echo_device, unfolded Let_def, THEN conjunct1,
        THEN conjunct2, THEN conjunct2, THEN conjunct1]
    by (simp add: echo_device_def)
  have c: "sent (snd (set_pressure sample_decoder echo_device 5 ''Negative'')) =
      [[0, 0, 0, 0, 0, 6, 1, 6, 3, 7, 0xFF, 0xF6]]"
    using set_pressure_clamps [of 5 sample_decoder echo_device, unfolded Let_def, THEN conjunct2,
        THEN conjunct2, THEN conjunct2, THEN conjunct1]
    by (simp add: echo_device_def)
  have d: "sent (snd (set_pressure sample_decoder echo_device (- 200) ''Negative'')) =
      [[0, 0, 0, 0, 0, 6, 1, 6, 3, 7, 0xFF, 0xB0]]"
    using set_pressure_clamps [of "- 200" sample_decoder echo_device, unfolded Let_def, THEN conjunct2,
        THEN conjunct2, THEN conjunct2, THEN conjunct1]
    by (simp add: echo_device_def)
  show ?thesis
    using a b c d by (simp add: request_field_def unsigned_to_signed_16bit_def)
qed

section \<open>Exception responses\<close>

text \<open>
  C3, as the code has it. When the response PDU to \<open>get_pressure\<close> carries function
  code \<open>0x83\<close> and an exception code, the decoder hands back the exception response,
  whose \<open>registers\<close> is the empty list. It passes the \<open>hasattr\<close> test, and
  \<open>registers[0]\<close> raises \<open>IndexError\<close>: \<open>get_pressure\<close> fails and returns no
  pressure, with an error that is no \<open>ModbusException\<close> and does not carry the
  exception code.
\<close>

theorem get_pressure_exception_response:
  assumes "drop 7 (take 1024 (peer c [0, 0, 0, 0, 0, 6, 1, 0x03, 0x03, 0x02, 0x00, 0x02])) = 0x83 # e # rest"
    and "d (0x83 # e # rest) = exception_response 0x83 e"
  shows "fst (get_pressure d c) = Inl IndexError \<and>
     (\<forall>k. fst (get_pressure d c) \<noteq> Inl (ModbusException k))"
proof -
  have "registers (fst (send_request d c [0, 0, 0, 0, 0, 6, 1, 0x03, 0x03, 0x02, 0x00, 0x02])) = Some []"
    using assms by (simp add: reply_message exception_response_def)
  then show ?thesis
    by (simp add: get_pressure_unfold)
qed

theorem get_pressure_exception_response_witness:
  "drop 7 (take 1024 (peer exception_device [0, 0, 0, 0, 0, 6, 1, 0x03, 0x03, 0x02, 0x00, 0x02])) = [0x83, 2] \<and>
   sample_decoder [0x83, 2] = exception_response 0x83 2 \<and>
   fst (get_pressure sample_decoder exception_device) = Inl IndexError"
proof -
  have p: "drop 7 (take 1024 (peer exception_device [0, 0, 0, 0, 0, 6, 1, 0x03, 0x03, 0x02, 0x00, 0x02])) = 0x83 # 2 # []"
    by (simp add: exception_device_def)
  have q: "sample_decoder (0x83 # 2 # []) = exception_response 0x83 2"
    by simp
  from p q get_pressure_exception_response
    [where d = sample_decoder and c = exception_device and e = 2 and rest = "[]", OF p q]
  show ?thesis
    by simp
qed

text \<open>
  The claim as stated asks for a \<open>ModbusException\<close> carrying the exception byte. A
  device answering \<open>get_pressure\<close> with function code \<open>0x83\<close> and exception code 2
  gets the \<open>IndexError\<close> of \<open>registers[0]\<close> instead.
\<close>

theorem get_pressure_modbus_exception_counterexample:
  "drop 7 (take 1024 (peer exception_device [0, 0, 0, 0, 0, 6, 1, 0x03, 0x03, 0x02, 0x00, 0x02])) = [0x83, 2] \<and>
   fst (get_pressure sample_decoder exception_device) = Inl IndexError \<and>
   fst (get_pressure sample_decoder exception_device) \<noteq> Inl (ModbusException 2)"
  by (simp add: get_pressure_unfold reply_message exception_device_def exception_response_def)

section \<open>Actuation status\<close>

text \<open>
  C4, where the code departs from it. \<open>is_pressure_launched\<close> raises
  \<open>ValueError('Invalid response message')\<close> only for an object without \<open>bits\<close>.
  Whenever the decoded object has an empty \<open>bits\<close> list the call fails with the
  \<open>IndexError\<close> of \<open>bits[0]\<close>: that is the error of an empty bit response, and
  also the error of every decoded response that is no bit response at all (an
  exception response, a register response), since the library gives each of them an
  empty \<open>bits\<close>. The two failures are the same error.
\<close>

theorem is_pressure_launched_empty_bits:
  assumes "bits (fst (send_request d c
      [0, 0, 0, 0, 0, 6, 1, 0x02, 0x02, (if s = ''Positive'' then 0x00 else 0x01), 0x00, 0x01])) = Some []"
  shows "fst (is_pressure_launched d c s) = Inl IndexError \<and>
     fst (is_pressure_launched d c s) \<noteq> Inl (ValueError ''Invalid response message'')"
  using assms by (simp add: is_pressure_launched_unfold Let_def)

theorem is_pressure_launched_empty_bits_witness:
  "fst (send_request sample_decoder exception_device [0, 0, 0, 0, 0, 6, 1, 0x02, 0x02, 0x00, 0x00, 0x01]) =
     exception_response 0x82 2 \<and>
   bits (exception_response 0x82 2) = Some [] \<and>
   fst (is_pressure_launched sample_decoder exception_device ''Positive'') = Inl IndexError \<and>
   registers (fst (send_request sample_decoder (register_device 0xFF 0xCE)
      [0, 0, 0, 0, 0, 6, 1, 0x02, 0x02, 0x00, 0x00, 0x01])) = Some [0xFFCE, 0] \<and>
   fst (is_pressure_launched sample_decoder (register_device 0xFF 0xCE) ''Positive'') = Inl IndexError"
proof -
  have m: "fst (send_request sample_decoder exception_device [0, 0, 0, 0, 0, 6, 1, 0x02, 0x02, 0x00, 0x00, 0x01]) =
      exception_response 0x82 2"
    by (simp add: reply_message exception_device_def)
  have e: "bits (exception_response 0x82 2) = Some []"
    by (simp add: exception_response_def)
  have x: "bits (fst (send_request sample_decoder exception_device
      [0, 0, 0, 0, 0, 6, 1, 0x02, 0x02, (if ''Positive'' = ''Positive'' then 0x00 else 0x01), 0x00, 0x01])) = Some []"
    using m e by simp
  have r: "registers (fst (send_request sample_decoder (register_device 0xFF 0xCE)
      [0, 0, 0, 0, 0, 6, 1, 0x02, 0x02, 0x00, 0x00, 0x01])) = Some [0xFFCE, 0]"
    by (simp add: reply_message register_device_def response_object_def)
  have y: "bits (fst (send_request sample_decoder (register_device 0xFF 0xCE)
      [0, 0, 0, 0, 0, 6, 1, 0x02, 0x02, (if ''Positive'' = ''Positive'' then 0x00 else 0x01), 0x00, 0x01])) = Some []"
    by (simp add: reply_message register_device_def response_object_def)
  from m e r is_pressure_launched_empty_bits [OF x] is_pressure_launched_empty_bits [OF y]
  show ?thesis
    by simp
qed

section \<open>Reading the pressure\<close>

text \<open>
  C5. \<open>get_pressure\<close> sends a read-holding-registers request (function code
  \<open>0x03\<close>) for 2 registers starting at address \<open>0x0302\<close>. Of the decoded
  response it uses \<open>registers[0]\<close> only, whatever the other registers are, and
  returns its signed 16-bit conversion: a raw value up to \<open>0x7FFF\<close> unchanged, a raw
  value from \<open>0x8000\<close> to \<open>0xFFFF\<close> minus \<open>0x10000\<close>, so that the result lies in
  \<open>[-32768, 32767]\<close> and is congruent to the raw value modulo \<open>0x10000\<close>. A response
  whose \<open>registers[0]\<close> is \<open>0xFFCE\<close> gives \<open>-50\<close>.
\<close>

theorem get_pressure_reads_register0:
  "sent (snd (get_pressure d c)) = sent c @ [[0, 0, 0, 0, 0, 6, 1, 0x03, 0x03, 0x02, 0x00, 0x02]] \<and>
   (registers (fst (send_request d c [0, 0, 0, 0, 0, 6, 1, 0x03, 0x03, 0x02, 0x00, 0x02])) = Some (r # rs) \<and> 0 \<le> r \<and> r \<le> 0x7FFF \<longrightarrow>
      fst (get_pressure d c) = Inr r) \<and>
   (registers (fst (send_request d c [0, 0, 0, 0, 0, 6, 1, 0x03, 0x03, 0x02, 0x00, 0x02])) = Some (r # rs) \<and> 0x8000 \<le> r \<and> r \<le> 0xFFFF \<longrightarrow>
      fst (get_pressure d c) = Inr (r - 0x10000)) \<and>
   (registers (fst (send_request d c [0, 0, 0, 0, 0, 6, 1, 0x03, 0x03, 0x02, 0x00, 0x02])) = Some (r # rs) \<and> 0 \<le> r \<and> r \<le> 0xFFFF \<longrightarrow>
      (\<exists>p. fst (get_pressure d c) = Inr p \<and> - 0x8000 \<le> p \<and> p \<le> 0x7FFF \<and> p mod 0x10000 = r)) \<and>
   (registers (fst (send_request d c [0, 0, 0, 0, 0, 6, 1, 0x03, 0x03, 0x02, 0x00, 0x02])) = Some (0xFFCE # rs) \<longrightarrow>
      fst (get_pressure d c) = Inr (- 50))"
proof -
  have s: "sent (snd (get_pressure d c)) = sent c @ [[0, 0, 0, 0, 0, 6, 1, 0x03, 0x03, 0x02, 0x00, 0x02]]"
    by (simp add: get_pressure_unfold)
  have g: "fst (get_pressure d c) = unsigned_to_signed_16bit x"
    if "registers (fst (send_request d c [0, 0, 0, 0, 0, 6, 1, 0x03, 0x03, 0x02, 0x00, 0x02])) = Some (x # xs)" for x xs
    using that by (simp add: get_pressure_unfold)
  have lo: "fst (get_pressure d c) = Inr r"
    if "registers (fst (send_request d c [0, 0, 0, 0, 0, 6, 1, 0x03, 0x03, 0x02, 0x00, 0x02])) = Some (r # rs) \<and> 0 \<le> r \<and> r \<le> 0x7FFF"
    using that g [of r rs] by (simp add: unsigned_to_signed_16bit_def)
  have hi: "fst (get_pressure d c) = Inr (r - 0x10000)"
    if "registers (fst (send_request d c [0, 0, 0, 0, 0, 6, 1, 0x03, 0x03, 0x02, 0x00, 0x02])) = Some (r # rs) \<and> 0x8000 \<le> r \<and> r \<le> 0xFFFF"
    using that g [of r rs] by (simp add: unsigned_to_signed_16bit_def)
  have rg: "\<exists>p. fst (get_pressure d c) = Inr p \<and> - 0x8000 \<le> p \<and> p \<le> 0x7FFF \<and> p mod 0x10000 = r"
    if h: "registers (fst (send_request d c [0, 0, 0, 0, 0, 6, 1, 0x03, 0x03, 0x02, 0x00, 0x02])) = Some (r # rs) \<and> 0 \<le> r \<and> r \<le> 0xFFFF"
  proof (cases "r \<le> 0x7FFF")
    case True
    with h lo show ?thesis
      by simp
  next
    case False
    with h hi have "fst (get_pressure d c) = Inr (r - 0x10000)"
      by simp
    moreover have "(r - 0x10000) mod 0x10000 = r"
      using h by (simp add: mod_diff_right_eq [symmetric])
    ultimately show ?thesis
      using h False by simp
  qed
  have ex: "fst (get_pressure d c) = Inr (- 50)"
    if "registers (fst (send_request d c [0, 0, 0, 0, 0, 6, 1, 0x03, 0x03, 0x02, 0x00, 0x02])) = Some (0xFFCE # rs)"
    using that g [of "0xFFCE" rs] by (simp add: unsigned_to_signed_16bit_def)
  from s lo hi rg ex show ?thesis
    by blast
qed

theorem get_pressure_reads_register0_witness:
  "registers (fst (send_request sample_decoder (register_device 0xFF 0xCE) [0, 0, 0, 0, 0, 6, 1, 0x03, 0x03, 0x02, 0x00, 0x02])) = Some [0xFFCE, 0] \<and>
   fst (get_pressure sample_decoder (register_device 0xFF 0xCE)) = Inr (- 50) \<and>
   registers (fst (send_request sample_decoder (register_device 0x00 0x64) [0, 0, 0, 0, 0, 6, 1, 0x03, 0x03, 0x02, 0x00, 0x02])) = Some [100, 0] \<and>
   fst (get_pressure sample_decoder (register_device 0x00 0x64)) = Inr 100 \<and>
   sent (snd (get_pressure sample_decoder (register_device 0xFF 0xCE))) = [[0, 0, 0, 0, 0, 6, 1, 3, 3, 2, 0, 2]]"
proof -
  have a: "registers (fst (send_request sample_decoder (register_device 0xFF 0xCE) [0, 0, 0, 0, 0, 6, 1, 0x03, 0x03, 0x02, 0x00, 0x02])) = Some (0xFFCE # [0])"
    by (simp add: reply_message register_device_def response_object_def)
  have b: "registers (fst (send_request sample_decoder (register_device 0x00 0x64) [0, 0, 0, 0, 0, 6, 1, 0x03, 0x03, 0x02, 0x00, 0x02])) = Some (100 # [0])"
    by (simp add: reply_message register_device_def response_object_def)
  note t = get_pressure_reads_register0 [of sample_decoder "register_device 0xFF 0xCE" "0xFFCE" "[0]"]
  note u = get_pressure_reads_register0 [of sample_decoder "register_device 0x00 0x64" 100 "[0]"]
  have x: "fst (get_pressure sample_decoder (register_device 0xFF 0xCE)) = Inr (- 50)"
    using t [THEN conjunct2, THEN conjunct2, THEN conjunct1] a by simp
  have y: "fst (get_pressure sample_decoder (register_device 0x00 0x64)) = Inr 100"
    using u [THEN conjunct2, THEN conjunct1] b by simp
  have z: "sent (snd (get_pressure sample_decoder (register_device 0xFF 0xCE))) = [[0, 0, 0, 0, 0, 6, 1, 3, 3, 2, 0, 2]]"
    using t [THEN conjunct1] by (simp add: register_device_def)
  from a b x y z show ?thesis
    by simp
qed

section \<open>Request frames\<close>

text \<open>
  C6. Each of the four operations, for every argument, transmits exactly one request
  of 12 bytes: the 7-byte MBAP header \<open>[0x00,0x00, 0x00,0x00, 0x00,0x06, 0x01]\<close>
  (transaction 0, protocol 0, length 6, unit 1), which is \<open>build_mbap_header\<close> on
  the four constants, followed by a 5-byte PDU. The length field is the constant 6 for
  all four function codes.
\<close>

theorem request_frame_shape:
  "build_mbap_header 0 0 6 1 = Inr [0x00, 0x00, 0x00, 0x00, 0x00, 0x06, 0x01] \<and>
   build_mbap_header TRANSACTION_ID PROTOCOL_ID LENGTH UNIT_ID = build_mbap_header 0 0 6 1 \<and>
   (\<exists>req. sent (snd (get_pressure d c)) = sent c @ [req] \<and> length req = 12 \<and>
      take 7 req = [0x00, 0x00, 0x00, 0x00, 0x00, 0x06, 0x01] \<and> length (drop 7 req) = 5) \<and>
   (\<exists>req. sent (snd (set_pressure d c p s)) = sent c @ [req] \<and> length req = 12 \<and>
      take 7 req = [0x00, 0x00, 0x00, 0x00, 0x00, 0x06, 0x01] \<and> length (drop 7 req) = 5) \<and>
   (\<exists>req. sent (snd (is_pressure_launched d c s)) = sent c @ [req] \<and> length req = 12 \<and>
      take 7 req = [0x00, 0x00, 0x00, 0x00, 0x00, 0x06, 0x01] \<and> length (drop 7 req) = 5) \<and>
   (\<exists>req. sent (snd (launch_pressure d c st s)) = sent c @ [req] \<and> length req = 12 \<and>
      take 7 req = [0x00, 0x00, 0x00, 0x00, 0x00, 0x06, 0x01] \<and> length (drop 7 req) = 5)"
proof -
  have h: "build_mbap_header 0 0 6 1 = Inr [0x00, 0x00, 0x00, 0x00, 0x00, 0x06, 0x01]"
    by (simp add: build_mbap_header_def bytes_of_def)
  have k: "build_mbap_header TRANSACTION_ID PROTOCOL_ID LENGTH UNIT_ID = build_mbap_header 0 0 6 1"
    by (simp add: TRANSACTION_ID_def PROTOCOL_ID_def LENGTH_def UNIT_ID_def)
  have g: "\<exists>req. sent (snd (get_pressure d c)) = sent c @ [req] \<and> length req = 12 \<and>
      take 7 req = [0x00, 0x00, 0x00, 0x00, 0x00, 0x06, 0x01] \<and> length (drop 7 req) = 5"
    by (simp add: get_pressure_unfold)
  have sp: "\<exists>req. sent (snd (set_pressure d c p s)) = sent c @ [req] \<and> length req = 12 \<and>
      take 7 req = [0x00, 0x00, 0x00, 0x00, 0x00, 0x06, 0x01] \<and> length (drop 7 req) = 5"
    by (simp add: set_pressure_unfold Let_def)
  have i: "\<exists>req. sent (snd (is_pressure_launched d c s)) = sent c @ [req] \<and> length req = 12 \<and>
      take 7 req = [0x00, 0x00, 0x00, 0x00, 0x00, 0x06, 0x01] \<and> length (drop 7 req) = 5"
    by (simp add: is_pressure_launched_unfold Let_def)
  have l: "\<exists>req. sent (snd (launch_pressure d c st s)) = sent c @ [req] \<and> length req = 12 \<and>
      take 7 req = [0x00, 0x00, 0x00, 0x00, 0x00, 0x06, 0x01] \<and> length (drop 7 req) = 5"
    by (simp add: launch_pressure_unfold Let_def)
  from h k g sp i l show ?thesis
    by (intro conjI)
qed

theorem request_frame_shape_witness:
  "\<exists>req. sent (snd (set_pressure sample_decoder echo_device 100000 ''Positive'')) = [req] \<and>
     length req = 12 \<and> take 7 req = [0, 0, 0, 0, 0, 6, 1] \<and> length (drop 7 req) = 5"
  using request_frame_shape [of sample_decoder echo_device 100000 "''Positive''"]
  by (simp add: echo_device_def)

section \<open>Round trip of a written value\<close>

text \<open>
  C7. When the decoded response to the request of \<open>set_pressure\<close> carries the
  value field of that request, \<open>set_pressure\<close> returns the clamped requested value
  exactly: the signed conversion undoes the 16-bit encoding.
\<close>

theorem set_pressure_roundtrip:
  "(let v = (if s = ''Positive'' then max 10 (min 300 p) else max (- 80) (min (- 10) p));
        req = [0, 0, 0, 0, 0, 6, 1, 0x06, 0x03, (if s = ''Positive'' then 0x06 else 0x07),
               drop_bit 8 v AND 0xFF, v AND 0xFF]
    in sent (snd (set_pressure d c p s)) = sent c @ [req] \<and>
       (msg_value (fst (send_request d c req)) = Some (request_field req) \<longrightarrow>
          fst (set_pressure d c p s) = Inr v))"
proof -
  define v where "v = (if s = ''Positive'' then max 10 (min 300 p) else max (- 80) (min (- 10) p))"
  have f: "unsigned_to_signed_16bit ((drop_bit 8 v AND 0xFF) * 256 + (v AND 0xFF)) = Inr v"
  proof (cases "s = ''Positive''")
    case True
    then have "10 \<le> v" "v \<le> 300"
      by (simp_all add: v_def)
    then show ?thesis
      by (simp add: positive_field unsigned_to_signed_16bit_def)
  next
    case False
    then have "- 80 \<le> v" "v \<le> - 10"
      by (simp_all add: v_def)
    then show ?thesis
      by (simp add: negative_field unsigned_to_signed_16bit_def)
  qed
  show ?thesis
    unfolding Let_def v_def [symmetric]
    using f by (simp add: set_pressure_unfold [of d c p s] Let_def v_def [symmetric] request_field_def)
qed

theorem set_pressure_roundtrip_witness:
  "msg_value (fst (send_request sample_decoder echo_device [0, 0, 0, 0, 0, 6, 1, 6, 3, 7, 0xFF, 0xB0])) =
     Some (request_field [0, 0, 0, 0, 0, 6, 1, 6, 3, 7, 0xFF, 0xB0]) \<and>
   fst (set_pressure sample_decoder echo_device (- 200) ''Negative'') = Inr (- 80) \<and>
   msg_value (fst (send_request sample_decoder echo_device [0, 0, 0, 0, 0, 6, 1, 6, 3, 6, 0x01, 0x2C])) =
     Some (request_field [0, 0, 0, 0, 0, 6, 1, 6, 3, 6, 0x01, 0x2C]) \<and>
   fst (set_pressure sample_decoder echo_device 500 ''Positive'') = Inr 300"
  using set_pressure_roundtrip [of "''Negative''" "- 200" sample_decoder echo_device]
    set_pressure_roundtrip [of "''Positive''" 500 sample_decoder echo_device]
  by (simp add: reply_message echo_device_def response_object_def request_field_def)

section \<open>Style and state strings\<close>





end
